theory Spec2Isabelle
  imports Main "HOL-Library.Char_ord" "HOL-Library.List_Lexorder" "HOL-Library.Product_Lexorder"
begin

section \<open>Python text operations used by the two scripts\<close>

text \<open>
  A Python \<open>str\<close> is modelled as a \<^typ>\<open>string\<close>, each \<^typ>\<open>char\<close> standing for the
  code point of the same number. The model therefore covers text over U+0000..U+00FF; on
  that range every operation below is the one Python performs. Comparison of strings
  (\<open>HOL-Library.List_Lexorder\<close> over \<open>HOL-Library.Char_ord\<close>) is lexicographic by code
  point, as Python's is.
\<close>

definition is_space :: "char \<Rightarrow> bool" where
  \<comment> \<open>\<open>str.isspace\<close>, the class that \<open>str.strip()\<close>, \<open>str.split()\<close> and the regex
      \<open>\s\<close> use\<close>
  "is_space c \<longleftrightarrow>
     c \<in> set [CHR 0x09, CHR 0x0A, CHR 0x0B, CHR 0x0C, CHR 0x0D, CHR 0x1C, CHR 0x1D,
              CHR 0x1E, CHR 0x1F, CHR '' '', CHR 0x85, CHR 0xA0]"

definition is_digit :: "char \<Rightarrow> bool" where
  \<comment> \<open>the regex \<open>\d\<close>: below U+0100 the only decimal digits are the ASCII ones\<close>
  "is_digit c \<longleftrightarrow> CHR ''0'' \<le> c \<and> c \<le> CHR ''9''"

definition is_ascii_letter :: "char \<Rightarrow> bool" where
  \<comment> \<open>the regex class \<open>[A-Za-z]\<close>\<close>
  "is_ascii_letter c \<longleftrightarrow> (CHR ''A'' \<le> c \<and> c \<le> CHR ''Z'') \<or> (CHR ''a'' \<le> c \<and> c \<le> CHR ''z'')"

definition is_upper :: "char \<Rightarrow> bool" where
  \<comment> \<open>the characters \<open>str.lower()\<close> changes: A-Z, and U+00C0..U+00DE but for the
      multiplication sign U+00D7\<close>
  "is_upper c \<longleftrightarrow>
     (CHR ''A'' \<le> c \<and> c \<le> CHR ''Z'') \<or> (CHR 0xC0 \<le> c \<and> c \<le> CHR 0xDE \<and> c \<noteq> CHR 0xD7)"

definition lower_char :: "char \<Rightarrow> char" where
  \<comment> \<open>the lower-case letter lies 32 code points above the upper-case one, which for
      the characters of \<open>is_upper\<close> is the same as setting the bit of weight 32\<close>
  "lower_char c =
     (if is_upper c
      then (case c of Char b0 b1 b2 b3 b4 b5 b6 b7 \<Rightarrow> Char b0 b1 b2 b3 b4 True b6 b7)
      else c)"

definition py_lower :: "string \<Rightarrow> string" where
  "py_lower s = map lower_char s"

definition py_strip :: "string \<Rightarrow> string" where
  \<comment> \<open>\<open>s.strip()\<close>\<close>
  "py_strip s = rev (dropWhile is_space (rev (dropWhile is_space s)))"

definition strip_chars :: "char \<Rightarrow> string \<Rightarrow> string" where
  \<comment> \<open>\<open>s.strip(c)\<close> for a single character \<open>c\<close>\<close>
  "strip_chars c s = rev (dropWhile (\<lambda>x. x = c) (rev (dropWhile (\<lambda>x. x = c) s)))"

definition startswith :: "string \<Rightarrow> string \<Rightarrow> bool" where
  \<comment> \<open>\<open>s.startswith(p)\<close>\<close>
  "startswith s p \<longleftrightarrow> take (length p) s = p"

primrec contains :: "string \<Rightarrow> string \<Rightarrow> bool" where
  \<comment> \<open>\<open>sub in s\<close>\<close>
  "contains [] sub \<longleftrightarrow> sub = []"
| "contains (c # cs) sub \<longleftrightarrow> startswith (c # cs) sub \<or> contains cs sub"

definition replace_Z :: "string \<Rightarrow> string" where
  \<comment> \<open>\<open>s.replace("Z", "+00:00")\<close>\<close>
  "replace_Z s = concat (map (\<lambda>c. if c = CHR ''Z'' then ''+00:00'' else [c]) s)"

definition str_or :: "string option \<Rightarrow> string \<Rightarrow> string" where
  \<comment> \<open>\<open>x or d\<close> for an optional string \<open>x\<close>: \<open>None\<close> and \<open>""\<close> are falsy\<close>
  "str_or x d = (case x of None \<Rightarrow> d | Some s \<Rightarrow> if s = [] then d else s)"

definition truthy :: "string option \<Rightarrow> bool" where
  "truthy x \<longleftrightarrow> (case x of None \<Rightarrow> False | Some s \<Rightarrow> s \<noteq> [])"

subsection \<open>Decimal numerals\<close>

definition digit_char :: "nat \<Rightarrow> char" where
  "digit_char d = ''0123456789'' ! d"

fun dec_str :: "nat \<Rightarrow> string" where
  \<comment> \<open>\<open>str(n)\<close> for \<open>n \<ge> 0\<close>\<close>
  "dec_str n = (if n < 10 then [digit_char n] else dec_str (n div 10) @ [digit_char (n mod 10)])"

declare dec_str.simps [simp del]

definition zfill :: "nat \<Rightarrow> string \<Rightarrow> string" where
  "zfill w s = replicate (w - length s) (CHR ''0'') @ s"

definition format_0d :: "nat \<Rightarrow> int \<Rightarrow> string" where
  \<comment> \<open>\<open>f"{n:0wd}"\<close>: zero padding to width \<open>w\<close>, the sign counted in the width\<close>
  "format_0d w n =
     (if n < 0 then CHR ''-'' # zfill (w - 1) (dec_str (nat (- n))) else zfill w (dec_str (nat n)))"

definition digit_val :: "char \<Rightarrow> nat" where
  "digit_val c = (of_char c :: nat) - 48"

definition int_of_digits :: "string \<Rightarrow> int" where
  \<comment> \<open>\<open>int(s)\<close> for a string of decimal digits\<close>
  "int_of_digits s = int (foldl (\<lambda>a c. 10 * a + digit_val c) 0 s)"

section \<open>The Normalizer (\<open>scripts/normalize_mbb_schedule.py\<close>)\<close>

subsection \<open>\<open>slug\<close>\<close>

definition is_slug_char :: "char \<Rightarrow> bool" where
  \<comment> \<open>the regex class \<open>[a-z0-9]\<close>\<close>
  "is_slug_char c \<longleftrightarrow> (CHR ''a'' \<le> c \<and> c \<le> CHR ''z'') \<or> (CHR ''0'' \<le> c \<and> c \<le> CHR ''9'')"

function sub_non_alnum :: "string \<Rightarrow> string" where
  \<comment> \<open>\<open>re.sub(r"[^a-z0-9]+", "-", s)\<close>: every maximal run of other characters
      becomes one dash\<close>
  "sub_non_alnum [] = []"
| "sub_non_alnum (c # cs) =
     (if is_slug_char c then c # sub_non_alnum cs
      else CHR ''-'' # sub_non_alnum (dropWhile (\<lambda>x. \<not> is_slug_char x) cs))"
  by pat_completeness auto
termination
  by (relation "measure length") (auto intro: le_imp_less_Suc length_dropWhile_le)

function sub_dashes :: "string \<Rightarrow> string" where
  \<comment> \<open>\<open>re.sub(r"-+", "-", s)\<close>\<close>
  "sub_dashes [] = []"
| "sub_dashes (c # cs) =
     (if c = CHR ''-'' then CHR ''-'' # sub_dashes (dropWhile (\<lambda>x. x = CHR ''-'') cs)
      else c # sub_dashes cs)"
  by pat_completeness auto
termination
  by (relation "measure length") (auto intro: le_imp_less_Suc length_dropWhile_le)

definition slug :: "string option \<Rightarrow> string" where
  "slug s =
     strip_chars (CHR ''-'') (sub_dashes (sub_non_alnum (py_strip (py_lower (str_or s [])))))"

subsection \<open>The sponsor suffix: \<open>re.sub(r"\s*presented by\b.*$", "", arena, flags=re.I)\<close>\<close>

definition is_word :: "char \<Rightarrow> bool" where
  \<comment> \<open>the regex \<open>\w\<close> (alphanumeric in Python's sense, or the underscore), which decides
      \<open>\b\<close>\<close>
  "is_word c \<longleftrightarrow>
     is_ascii_letter c \<or> is_digit c \<or> c = CHR ''_'' \<or>
     c \<in> set [CHR 0xAA, CHR 0xB2, CHR 0xB3, CHR 0xB5, CHR 0xB9, CHR 0xBA, CHR 0xBC, CHR 0xBD, CHR 0xBE] \<or>
     (CHR 0xC0 \<le> c \<and> c \<noteq> CHR 0xD7 \<and> c \<noteq> CHR 0xF7)"

definition to_line_end :: "string \<Rightarrow> bool" where
  \<comment> \<open>\<open>.*$\<close> matches here: no line feed up to the end of the string, or up to a
      line feed that is the last character\<close>
  "to_line_end s \<longleftrightarrow>
     (let t = dropWhile (\<lambda>c. c \<noteq> CHR 0x0A) s in t = [] \<or> t = [CHR 0x0A])"

definition presented_at :: "string \<Rightarrow> bool" where
  \<comment> \<open>the pattern matches at the start of \<open>s\<close>\<close>
  "presented_at s \<longleftrightarrow>
     (let t = dropWhile is_space s; r = drop 12 t in
      py_lower (take 12 t) = ''presented by'' \<and>
      (case r of [] \<Rightarrow> True | c # _ \<Rightarrow> \<not> is_word c) \<and> to_line_end r)"

fun sub_presented :: "string \<Rightarrow> string" where
  \<comment> \<open>the leftmost match is removed; it runs to the end of the string (or to a final
      line feed, which stays), so there is no second match\<close>
  "sub_presented [] = []"
| "sub_presented (c # cs) =
     (if presented_at (c # cs) then (if last (c # cs) = CHR 0x0A then [CHR 0x0A] else [])
      else c # sub_presented cs)"

subsection \<open>Dates\<close>

record datetime =
  year :: int
  month :: int
  day :: int
  hour :: int
  minute :: int
  second :: int

definition detect_season_start_year :: "datetime \<Rightarrow> int" where
  "detect_season_start_year scraped =
     (if month scraped \<le> 3 then year scraped - 1 else year scraped)"

definition MONTH_IDX :: "(string \<times> int) list" where
  "MONTH_IDX =
     [(''jan'', 1), (''feb'', 2), (''mar'', 3), (''apr'', 4), (''may'', 5), (''jun'', 6),
      (''jul'', 7), (''aug'', 8), (''sep'', 9), (''oct'', 10), (''nov'', 11), (''dec'', 12)]"

definition is_token_char :: "char \<Rightarrow> bool" where
  \<comment> \<open>the regex class \<open>[A-Za-z.]\<close>\<close>
  "is_token_char c \<longleftrightarrow> is_ascii_letter c \<or> c = CHR ''.''"

definition match_label :: "string \<Rightarrow> (string \<times> string) option" where
  \<comment> \<open>\<open>re.match(r"\s*([A-Za-z.]+)\s+(\d{1,2})\s*$", label)\<close>: the two groups. The
      classes that follow one another are disjoint, so the greedy reading is the only one.\<close>
  "match_label label =
     (let s1 = dropWhile is_space label;
          tok = takeWhile is_token_char s1;
          s2 = dropWhile is_token_char s1;
          s3 = dropWhile is_space s2;
          ds = takeWhile is_digit s3;
          s4 = dropWhile is_digit s3
      in if tok \<noteq> [] \<and> s3 \<noteq> s2 \<and> ds \<noteq> [] \<and> length ds \<le> 2 \<and> list_all is_space s4
         then Some (tok, ds) else None)"

definition iso_date :: "int \<Rightarrow> int \<Rightarrow> int \<Rightarrow> string" where
  \<comment> \<open>\<open>f"{year:04d}-{mon:02d}-{day:02d}"\<close>\<close>
  "iso_date y m d = format_0d 4 y @ ''-'' @ format_0d 2 m @ ''-'' @ format_0d 2 d"

definition parse_date_from_text :: "string option \<Rightarrow> int \<Rightarrow> string option" where
  "parse_date_from_text label season_start_year =
     (if \<not> truthy label then None
      else case match_label (the label) of
        None \<Rightarrow> None
      | Some (tok, ds) \<Rightarrow>
          let mon_token = filter (\<lambda>c. c \<noteq> CHR ''.'') tok;
              mon_key = py_lower (take 3 mon_token)
          in (case map_of MONTH_IDX mon_key of
                None \<Rightarrow> None
              | Some mon \<Rightarrow>
                  let day = int_of_digits ds;
                      year = (if mon < 8 then season_start_year + 1 else season_start_year)
                  in Some (iso_date year mon day)))"

subsection \<open>The capture time in US Central time\<close>

text \<open>
  \<open>normalize_mbb\<close> reads the capture time with
  \<open>datetime.fromisoformat(...).astimezone(CENTRAL)\<close> and falls back to
  \<open>datetime.now(CENTRAL)\<close> when that raises. Both are library calls, so \<open>normalize_mbb\<close>
  takes them as a \<open>runtime\<close>: what the conversion returns for a string (\<open>None\<close> when it
  raises) and what the clock reads. \<open>py_fromisoformat_central\<close> below is the conversion
  itself for the stamps the Extractor writes (\<open>datetime.now(timezone.utc).isoformat()\<close>,
  that is \<open>YYYY-MM-DDTHH:MM:SS[.ffffff]+00:00\<close>) from 2007 on, when the present
  daylight-saving rule of the zone America/Chicago took effect, and for the empty string,
  on which \<open>fromisoformat\<close> raises; every other string is left to its parameter \<open>lib\<close>.
\<close>

record runtime =
  fromisoformat_central :: "string \<Rightarrow> datetime option"
  now_central :: datetime

definition is_leap :: "int \<Rightarrow> bool" where
  "is_leap y \<longleftrightarrow> y mod 4 = 0 \<and> (y mod 100 \<noteq> 0 \<or> y mod 400 = 0)"

definition days_in_month :: "int \<Rightarrow> int \<Rightarrow> int" where
  "days_in_month y m =
     (if m = 2 then (if is_leap y then 29 else 28)
      else if m = 4 \<or> m = 6 \<or> m = 9 \<or> m = 11 then 30 else 31)"

definition weekday :: "int \<Rightarrow> int \<Rightarrow> int \<Rightarrow> int" where
  \<comment> \<open>day of the week of a Gregorian date, 0 for Sunday\<close>
  "weekday y m d =
     (let y' = (if m < 3 then y - 1 else y);
          t = [0, 3, 2, 5, 0, 3, 5, 1, 4, 6, 2, 4 :: int] ! nat (m - 1)
      in (y' + y' div 4 - y' div 100 + y' div 400 + t + d) mod 7)"

definition first_sunday :: "int \<Rightarrow> int \<Rightarrow> int" where
  "first_sunday y m = 1 + (7 - weekday y m 1) mod 7"

definition central_utc_offset :: "datetime \<Rightarrow> int" where
  \<comment> \<open>hours that Central time is behind the UTC time \<open>u\<close>: daylight time runs from the
      second Sunday of March, 08:00 UTC, to the first Sunday of November, 07:00 UTC\<close>
  "central_utc_offset u =
     (if (3, first_sunday (year u) 3 + 7, 8) \<le> (month u, day u, hour u) \<and>
         (month u, day u, hour u) < (11, first_sunday (year u) 11, 7)
      then 5 else 6)"

definition day_before :: "datetime \<Rightarrow> datetime" where
  "day_before u =
     (if 1 < day u then u\<lparr>day := day u - 1\<rparr>
      else if 1 < month u then u\<lparr>month := month u - 1, day := days_in_month (year u) (month u - 1)\<rparr>
      else u\<lparr>year := year u - 1, month := 12, day := 31\<rparr>)"

definition astimezone_central :: "datetime \<Rightarrow> datetime" where
  "astimezone_central u =
     (let h = hour u - central_utc_offset u in
      if 0 \<le> h then u\<lparr>hour := h\<rparr> else (day_before u)\<lparr>hour := h + 24\<rparr>)"

definition field :: "string \<Rightarrow> nat \<Rightarrow> nat \<Rightarrow> string" where
  "field s i n = take n (drop i s)"

definition utc_stamp_shape :: "string \<Rightarrow> bool" where
  "utc_stamp_shape s \<longleftrightarrow>
     list_all is_digit (field s 0 4 @ field s 5 2 @ field s 8 2 @ field s 11 2 @ field s 14 2 @ field s 17 2) \<and>
     field s 4 1 = ''-'' \<and> field s 7 1 = ''-'' \<and> field s 10 1 = ''T'' \<and>
     field s 13 1 = '':'' \<and> field s 16 1 = '':'' \<and>
     (drop 19 s = ''+00:00'' \<or>
      (field s 19 1 = ''.'' \<and> length (field s 20 6) = 6 \<and> list_all is_digit (field s 20 6) \<and>
       drop 26 s = ''+00:00''))"

definition parse_utc_stamp :: "string \<Rightarrow> datetime option" where
  "parse_utc_stamp s =
     (let u = \<lparr>year = int_of_digits (field s 0 4), month = int_of_digits (field s 5 2),
                day = int_of_digits (field s 8 2), hour = int_of_digits (field s 11 2),
                minute = int_of_digits (field s 14 2), second = int_of_digits (field s 17 2)\<rparr>
      in if utc_stamp_shape s \<and> 2007 \<le> year u \<and> 1 \<le> month u \<and> month u \<le> 12 \<and>
            1 \<le> day u \<and> day u \<le> days_in_month (year u) (month u) \<and>
            hour u \<le> 23 \<and> minute u \<le> 59 \<and> second u \<le> 59
         then Some u else None)"

definition py_fromisoformat_central :: "(string \<Rightarrow> datetime option) \<Rightarrow> string \<Rightarrow> datetime option" where
  "py_fromisoformat_central lib s =
     (if s = [] then None
      else case parse_utc_stamp s of
        Some u \<Rightarrow> Some (astimezone_central u)
      | None \<Rightarrow> lib s)"

definition py_runtime :: "(string \<Rightarrow> datetime option) \<Rightarrow> datetime \<Rightarrow> runtime" where
  "py_runtime lib now = \<lparr>fromisoformat_central = py_fromisoformat_central lib, now_central = now\<rparr>"

definition scraped_central :: "runtime \<Rightarrow> string option \<Rightarrow> datetime" where
  \<comment> \<open>the \<open>try\<close> block at the head of \<open>normalize_mbb\<close>\<close>
  "scraped_central rt scraped_at =
     (case fromisoformat_central rt (replace_Z (str_or scraped_at [])) of
        Some scraped \<Rightarrow> scraped
      | None \<Rightarrow> now_central rt)"

subsection \<open>Records and \<open>normalize_mbb\<close>\<close>

text \<open>
  A raw item is the JSON object the Extractor writes, with the field types of the
  specification's data model; \<open>None\<close> is a key that is absent or \<open>null\<close>. The
  Normalizer also reads the key \<open>networks\<close>, which the Extractor never writes. The
  fields of a canonical row carry the prefix \<open>row_\<close>, since several share their name
  with a field of the raw item.
\<close>

record link =
  title :: "string option"
  href :: string

record game_result =
  outcome :: string
  sets :: string

record raw_item =
  date :: "string option"
  date_text :: "string option"
  time_local :: "string option"
  venue_type :: "string option"
  nu_rank :: "int option"
  opp_rank :: "int option"
  opponent_name :: "string option"
  city :: "string option"
  arena :: "string option"
  nebraska_logo_url :: "string option"
  opponent_logo_url :: "string option"
  tv_network_logo_url :: "string option"
  status :: "string option"
  result :: "game_result option"
  links :: "link list option"
  divider_text :: "string option"
  networks :: "string list option"

record row =
  row_date :: string
  row_time_local :: "string option"
  row_home_away :: string
  row_nu_rank :: "int option"
  row_opponent :: string
  row_opp_rank :: "int option"
  row_title :: string
  row_arena :: "string option"
  row_city :: "string option"
  row_arena_key :: string
  row_nu_logo :: "string option"
  row_opp_logo :: "string option"
  row_tv_logo :: "string option"
  row_tv :: "string list"
  row_status :: string
  row_result :: "string option"
  row_result_css :: "string option"
  row_notes :: "string option"
  row_links :: "link list"

definition strip_or_none :: "string option \<Rightarrow> string option" where
  \<comment> \<open>\<open>(x or "").strip() or None\<close>\<close>
  "strip_or_none x = (let s = py_strip (str_or x []) in if s = [] then None else Some s)"

definition clean_arena :: "string option \<Rightarrow> string option" where
  \<comment> \<open>lines 107 to 109: the sponsor suffix is cut from an arena that is present\<close>
  "clean_arena x =
     (case strip_or_none x of
        None \<Rightarrow> None
      | Some a \<Rightarrow> Some (py_strip (sub_presented a)))"

definition resolve_date :: "raw_item \<Rightarrow> int \<Rightarrow> string option" where
  \<comment> \<open>lines 98 to 100\<close>
  "resolve_date it season_start_year =
     (if truthy (date it) then date it else parse_date_from_text (date_text it) season_start_year)"

definition derive_status :: "raw_item \<Rightarrow> string" where
  \<comment> \<open>lines 113 to 117; a result that is present is a non-empty object, hence truthy\<close>
  "derive_status it =
     (let res = result it;
          status = str_or (status it) (if res \<noteq> None then ''final'' else ''scheduled'')
      in if status \<notin> set [''final'', ''scheduled'', ''tbd'']
         then (if res = None then ''scheduled'' else ''final'')
         else status)"

definition normalize_item :: "int \<Rightarrow> raw_item \<Rightarrow> row option" where
  \<comment> \<open>the body of the loop: \<open>None\<close> is \<open>continue\<close>, \<open>Some r\<close> is \<open>rows.append(r)\<close>\<close>
  "normalize_item season_start_year it =
     (let raw_opp = py_strip (str_or (opponent_name it) []);
          opp_lower = py_lower raw_opp;
          date_iso = resolve_date it season_start_year;
          arena = clean_arena (arena it);
          res = result it;
          opp = (if raw_opp = [] then ''TBA'' else raw_opp)
      in if raw_opp = [] then None
         else if contains opp_lower ''opening night presented by scheels'' then None
         else if startswith opp_lower ''big ten '' then None
         else if \<not> truthy date_iso then None
         else Some \<lparr>
           row_date = the date_iso,
           row_time_local = time_local it,
           row_home_away = str_or (venue_type it) ''N'',
           row_nu_rank = nu_rank it,
           row_opponent = opp,
           row_opp_rank = opp_rank it,
           row_title = opp,
           row_arena = arena,
           row_city = strip_or_none (city it),
           row_arena_key = slug (Some (str_or arena ''unknown'')),
           row_nu_logo = nebraska_logo_url it,
           row_opp_logo = opponent_logo_url it,
           row_tv_logo = tv_network_logo_url it,
           row_tv = (case networks it of None \<Rightarrow> [] | Some ns \<Rightarrow> ns),
           row_status = derive_status it,
           row_result = map_option (\<lambda>r. outcome r @ '' '' @ sets r) res,
           row_result_css =
             (case res of
                None \<Rightarrow> None
              | Some r \<Rightarrow> if outcome r \<in> set [''W'', ''L'', ''T''] then Some (outcome r) else None),
           row_notes = None,
           row_links = (case links it of None \<Rightarrow> [] | Some ls \<Rightarrow> ls)\<rparr>)"

primrec collect_rows :: "int \<Rightarrow> raw_item list \<Rightarrow> row list" where
  \<comment> \<open>the \<open>for\<close> loop, in the order of the items\<close>
  "collect_rows y [] = []"
| "collect_rows y (it # its) =
     (case normalize_item y it of
        None \<Rightarrow> collect_rows y its
      | Some r \<Rightarrow> r # collect_rows y its)"

definition sort_key_of :: "row \<Rightarrow> string \<times> string" where
  \<comment> \<open>the key of \<open>rows.sort\<close>\<close>
  "sort_key_of x =
     (if row_date x = [] then ''9999-12-31'' else row_date x, str_or (row_time_local x) ''23:59'')"

definition normalize_mbb :: "runtime \<Rightarrow> raw_item list \<Rightarrow> string option \<Rightarrow> row list" where
  \<comment> \<open>the function \<open>normalize\<close> of the script (HOL has a constant of that name);
      \<open>list.sort\<close> is stable, as \<open>sort_key\<close> is\<close>
  "normalize_mbb rt items scraped_at =
     (let season_start_year = detect_season_start_year (scraped_central rt scraped_at)
      in sort_key sort_key_of (collect_rows season_start_year items))"

section \<open>The Extractor (\<open>scripts/scrape_huskers_mbb.py\<close>)\<close>

text \<open>
  \<open>parse_event\<close> reads one row of the rendered page through Playwright locators. The
  model takes what those reads return as its input: for a text or attribute read, the
  value at the first matching element, \<open>None\<close> when nothing matches, the attribute is
  absent or the read times out (\<open>safe_text\<close> and \<open>safe_attr\<close> turn all three into
  \<open>None\<close>).
\<close>

function py_split :: "string \<Rightarrow> string list" where
  \<comment> \<open>\<open>s.split()\<close>\<close>
  "py_split s =
     (let t = dropWhile is_space s in
      if t = [] then []
      else takeWhile (\<lambda>c. \<not> is_space c) t # py_split (dropWhile (\<lambda>c. \<not> is_space c) t))"
  by pat_completeness auto
termination
proof (relation "measure length")
  fix s t :: string
  assume t: "t = dropWhile is_space s" and ne: "t \<noteq> []"
  have "length (dropWhile (\<lambda>c. \<not> is_space c) t) < length t"
  proof (cases t)
    case Nil
    with ne show ?thesis by simp
  next
    case (Cons c cs)
    with t have "\<not> is_space c"
      by (metis hd_dropWhile list.sel(1) ne)
    with Cons show ?thesis
      by (simp add: le_imp_less_Suc length_dropWhile_le)
  qed
  also have "length t \<le> length s"
    unfolding t by (rule length_dropWhile_le)
  finally show "(dropWhile (\<lambda>c. \<not> is_space c) t, s) \<in> measure length"
    by simp
qed simp

declare py_split.simps [simp del]

fun join_blank :: "string list \<Rightarrow> string" where
  \<comment> \<open>\<open>" ".join(ws)\<close>\<close>
  "join_blank [] = []"
| "join_blank [w] = w"
| "join_blank (w # ws) = w @ '' '' @ join_blank ws"

definition clean :: "string option \<Rightarrow> string option" where
  \<comment> \<open>a value that is not a string (here \<open>None\<close>) is returned unchanged\<close>
  "clean s = map_option (\<lambda>x. join_blank (py_split x)) s"

definition safe_text :: "string option \<Rightarrow> string option" where
  "safe_text node = map_option py_strip node"

subsection \<open>\<open>get_img_src\<close>\<close>

record img_view =
  currentSrc :: string  \<comment> \<open>\<open>el.currentSrc\<close>\<close>
  src_prop :: string  \<comment> \<open>\<open>el.src\<close>, the \<open>src\<close> attribute as the browser reflects it\<close>
  data_src_prop :: "string option"  \<comment> \<open>\<open>el.getAttribute('data-src')\<close>\<close>
  evaluate_timeout :: bool  \<comment> \<open>\<open>img.evaluate\<close> raises \<open>PWTimeout\<close>\<close>
  src_attr :: "string option"  \<comment> \<open>\<open>safe_attr(locator, "src")\<close>\<close>
  data_src_attr :: "string option"  \<comment> \<open>\<open>safe_attr(locator, "data-src")\<close>\<close>

datatype img_locator = NoMatch | Img img_view

definition js_current :: "img_view \<Rightarrow> string" where
  \<comment> \<open>\<open>el.currentSrc || el.src || el.getAttribute('data-src') || ''\<close>\<close>
  "js_current v =
     (if currentSrc v \<noteq> [] then currentSrc v
      else if src_prop v \<noteq> [] then src_prop v
      else str_or (data_src_prop v) [])"

definition usable :: "string \<Rightarrow> bool" where
  \<comment> \<open>\<open>x and not x.startswith("data:image")\<close>\<close>
  "usable x \<longleftrightarrow> x \<noteq> [] \<and> \<not> startswith x ''data:image''"

definition get_img_src :: "img_locator \<Rightarrow> string option" where
  "get_img_src locator =
     (case locator of
        NoMatch \<Rightarrow> None
      | Img v \<Rightarrow>
          if evaluate_timeout v then None
          else if usable (js_current v) then Some (js_current v)
          else if usable (str_or (src_attr v) []) then src_attr v
          else if usable (str_or (data_src_attr v) []) then data_src_attr v
          else None)"

subsection \<open>Ranks\<close>

definition match_rank_prefix :: "string \<Rightarrow> (string \<times> string) option" where
  \<comment> \<open>\<open>re.match(r"#\s*(\d{1,2})\s+(.*)$", opponent_name)\<close>: the two groups. After one or
      two digits a white-space character must follow, so a run of three digits fails.\<close>
  "match_rank_prefix s =
     (case s of
        [] \<Rightarrow> None
      | c # cs \<Rightarrow>
          let t = dropWhile is_space cs;
              ds = takeWhile is_digit t;
              t2 = dropWhile is_digit t;
              t3 = dropWhile is_space t2
          in if c = CHR ''#'' \<and> ds \<noteq> [] \<and> length ds \<le> 2 \<and> t3 \<noteq> t2 \<and> to_line_end t3
             then Some (ds, takeWhile (\<lambda>x. x \<noteq> CHR 0x0A) t3) else None)"

fun search_rank :: "string \<Rightarrow> string option" where
  \<comment> \<open>\<open>re.search(r"#\s*(\d{1,2})", txt)\<close>: group 1 of the leftmost match\<close>
  "search_rank [] = None"
| "search_rank (c # cs) =
     (let ds = takeWhile is_digit (dropWhile is_space cs) in
      if c = CHR ''#'' \<and> ds \<noteq> [] then Some (take 2 ds) else search_rank cs)"

definition rank_in :: "string \<Rightarrow> int option" where
  \<comment> \<open>\<open>m = re.search(...); if m: rank = int(m.group(1))\<close>\<close>
  "rank_in txt = map_option int_of_digits (search_rank txt)"

record wrapper =
  w_img :: img_locator  \<comment> \<open>\<open>wrappers.nth(i).locator("img")\<close>\<close>
  w_text :: "string option"  \<comment> \<open>the inner text of \<open>wrappers.nth(i)\<close>\<close>

definition name_and_rank :: "string \<Rightarrow> int option \<times> string" where
  \<comment> \<open>lines 123 to 127: \<open>(opp_rank, opponent_name)\<close>\<close>
  "name_and_rank name =
     (case match_rank_prefix name of
        None \<Rightarrow> (None, name)
      | Some (ds, rest) \<Rightarrow> (Some (int_of_digits ds), py_strip rest))"

definition nu_rank_of :: "wrapper list \<Rightarrow> string option \<Rightarrow> int option" where
  \<comment> \<open>lines 129 to 143 and 153 to 164\<close>
  "nu_rank_of wrappers home_rank_node =
     (let nu_rank =
        (if 1 \<le> length wrappers then rank_in (str_or (safe_text (w_text (wrappers ! 0))) [])
         else None)
      in if nu_rank = None
         then (if truthy (safe_text home_rank_node) then rank_in (the (safe_text home_rank_node))
               else None)
         else nu_rank)"

definition opp_rank_of :: "int option \<Rightarrow> wrapper list \<Rightarrow> string option \<Rightarrow> int option" where
  \<comment> \<open>lines 145 to 150 and 166 to 176, from the rank found in the name\<close>
  "opp_rank_of from_name wrappers away_rank_node =
     (let opp_rank =
        (if 2 \<le> length wrappers \<and> from_name = None
         then rank_in (str_or (safe_text (w_text (wrappers ! 1))) [])
         else from_name)
      in if opp_rank = None
         then (if truthy (safe_text away_rank_node) then rank_in (the (safe_text away_rank_node))
               else None)
         else opp_rank)"

subsection \<open>\<open>parse_event\<close>\<close>

record link_node =
  title_node :: "string option"  \<comment> \<open>inner text of \<open>.schedule-event-item-links__title\<close>\<close>
  a_text :: "string option"  \<comment> \<open>inner text of the link\<close>
  a_href :: "string option"  \<comment> \<open>its \<open>href\<close> attribute\<close>

record event =
  divider_node :: "string option"
  opponent_name_node :: "string option"
  wrappers :: "wrapper list"
  location_node :: "string option"
  home_rank_node :: "string option"
  away_rank_node :: "string option"
  has_win :: bool
  has_loss :: bool
  has_tie :: bool
  result_label_node :: "string option"
  event_date_datetime :: "string option"  \<comment> \<open>\<open>.schedule-event-date time[datetime]\<close>\<close>
  any_datetime :: "string option"  \<comment> \<open>\<open>time[datetime]\<close>\<close>
  date_label_node :: "string option"
  date_date_node :: "string option"
  venue_label_node :: "string option"
  tv_img :: img_locator
  link_nodes :: "link_node list"

definition split_location :: "string \<Rightarrow> (string \<times> string) option" where
  \<comment> \<open>\<open>re.search(r"(.+?)\s*/\s*(.+)$", location)\<close> and the \<open>strip()\<close> of its two groups.
      \<open>location\<close> is a result of \<open>clean\<close>, so it has no line feed: the match starts at
      the first character, the slash is the first one after that character, and a
      character must follow the slash.\<close>
  "split_location location =
     (case location of
        [] \<Rightarrow> None
      | c # cs \<Rightarrow>
          let a = takeWhile (\<lambda>x. x \<noteq> CHR ''/'') cs;
              b = dropWhile (\<lambda>x. x \<noteq> CHR ''/'') cs
          in if b = [] \<or> tl b = [] then None else Some (py_strip (c # a), py_strip (tl b)))"

definition score_of :: "string \<Rightarrow> string" where
  \<comment> \<open>\<open>next((p for p in label.split() if "-" in p or EN DASH in p), label)\<close> with
      the en dash replaced by a hyphen; the en dash, U+2013, is not in the range of the
      model\<close>
  "score_of label =
     (case filter (\<lambda>p. CHR ''-'' \<in> set p) (py_split label) of [] \<Rightarrow> label | p # _ \<Rightarrow> p)"

definition first_truthy :: "string option \<Rightarrow> string option \<Rightarrow> string option" where
  \<comment> \<open>\<open>a or b\<close>\<close>
  "first_truthy a b = (if truthy a then a else b)"

definition home_away_neutral :: "string \<Rightarrow> string option \<Rightarrow> string option \<Rightarrow> string" where
  \<comment> \<open>lines 215 to 227\<close>
  "home_away_neutral divider place label_node =
     (if startswith divider ''at'' then ''A''
      else if startswith divider ''vs''
      then (if truthy place \<and> contains (the place) ''Lincoln'' then ''H'' else ''N'')
      else let vlabel = py_lower (str_or (safe_text label_node) []) in
           if contains vlabel ''home'' then ''H''
           else if contains vlabel ''away'' then ''A''
           else ''N'')"

definition link_of :: "link_node \<Rightarrow> link option" where
  \<comment> \<open>the body of the loop over \<open>.schedule-event-bottom__link\<close>\<close>
  "link_of a =
     (if truthy (a_href a)
      then Some \<lparr>title = first_truthy (safe_text (title_node a)) (clean (safe_text (a_text a))),
                 href = (if startswith (the (a_href a)) ''/''
                         then ''https://huskers.com'' @ the (a_href a) else the (a_href a))\<rparr>
      else None)"

definition parse_event :: "event \<Rightarrow> raw_item option" where
  "parse_event ev =
     (let divider = py_lower (py_strip (str_or (safe_text (divider_node ev)) []));
          opponent_name0 = str_or (clean (safe_text (opponent_name_node ev))) [];
          ne_logo = (if 1 \<le> length (wrappers ev) then get_img_src (w_img (wrappers ev ! 0)) else None);
          opp_logo = (if 2 \<le> length (wrappers ev) then get_img_src (w_img (wrappers ev ! 1)) else None);
          location = str_or (clean (safe_text (location_node ev))) [];
          mloc = split_location location;
          city = map_option fst mloc;
          arena = map_option (\<lambda>m. sub_presented (snd m)) mloc;
          (opp_rank0, opponent_name) = name_and_rank opponent_name0;
          nu_rank = nu_rank_of (wrappers ev) (home_rank_node ev);
          opp_rank = opp_rank_of opp_rank0 (wrappers ev) (away_rank_node ev);
          label = str_or (clean (safe_text (result_label_node ev))) [];
          final = (has_win ev \<or> has_loss ev \<or> has_tie ev);
          result = (if final
                    then Some \<lparr>outcome = (if has_win ev then ''W'' else if has_loss ev then ''L'' else ''T''),
                               sets = score_of label\<rparr>
                    else None);
          time_local = (if final \<or> label = [] then None else Some label);
          status = (if final then ''final'' else if time_local \<noteq> None then ''scheduled'' else ''tbd'');
          iso_dt = first_truthy (event_date_datetime ev) (any_datetime ev);
          date_iso = (if truthy iso_dt \<and> CHR ''T'' \<in> set (the iso_dt)
                      then Some (takeWhile (\<lambda>c. c \<noteq> CHR ''T'') (the iso_dt)) else None);
          date_text = first_truthy (clean (safe_text (date_label_node ev)))
                        (first_truthy (clean (safe_text (date_date_node ev))) None);
          han = home_away_neutral divider city (venue_label_node ev);
          tv_logo = get_img_src (tv_img ev);
          links = List.map_filter link_of (link_nodes ev)
      in if opponent_name = [] then None
         else Some \<lparr>
           date = date_iso,
           date_text = date_text,
           time_local = time_local,
           venue_type = Some han,
           nu_rank = nu_rank,
           opp_rank = opp_rank,
           opponent_name = Some opponent_name,
           city = city,
           arena = arena,
           nebraska_logo_url = ne_logo,
           opponent_logo_url = opp_logo,
           tv_network_logo_url = tv_logo,
           status = Some status,
           result = result,
           links = Some links,
           divider_text = Some divider,
           networks = None\<rparr>)"

section \<open>Properties stated in the specification's words\<close>




definition blank_item :: raw_item where
  \<comment> \<open>the raw item with no key set; the scenarios below set the keys they name\<close>
  "blank_item =
     \<lparr>date = None, date_text = None, time_local = None, venue_type = None, nu_rank = None,
      opp_rank = None, opponent_name = None, city = None, arena = None,
      nebraska_logo_url = None, opponent_logo_url = None, tv_network_logo_url = None,
      status = None, result = None, links = None, divider_text = None, networks = None\<rparr>"

definition label_parts :: "string \<Rightarrow> string \<Rightarrow> string \<Rightarrow> string \<Rightarrow> string \<Rightarrow> bool" where
  \<comment> \<open>the pattern \<open><month-token> <day>\<close>: white space, a token of letters and periods,
      white space, one or two digits, white space\<close>
  "label_parts a tok b ds c \<longleftrightarrow>
     list_all is_space a \<and> tok \<noteq> [] \<and> list_all is_token_char tok \<and>
     b \<noteq> [] \<and> list_all is_space b \<and>
     ds \<noteq> [] \<and> length ds \<le> 2 \<and> list_all is_digit ds \<and> list_all is_space c"

definition month_of_token :: "string \<Rightarrow> int option" where
  \<comment> \<open>the first three letters of the token, periods apart, looked up in the month table
      without regard to case\<close>
  "month_of_token tok = map_of MONTH_IDX (py_lower (take 3 (filter (\<lambda>c. c \<noteq> CHR ''.'') tok)))"

definition purdue_event :: event where
  \<comment> \<open>a rendered row: opponent text \<open>#4 Purdue\<close>, date label \<open>Feb 1\<close>, a win marker and
      the result label \<open>W 78-65\<close>\<close>
  "purdue_event =
     \<lparr>divider_node = Some ''vs.'', opponent_name_node = Some ''#4 Purdue'', wrappers = [],
      location_node = None, home_rank_node = None, away_rank_node = None,
      has_win = True, has_loss = False, has_tie = False, result_label_node = Some ''W 78-65'',
      event_date_datetime = None, any_datetime = None, date_label_node = Some ''Feb 1'',
      date_date_node = None, venue_label_node = None, tv_img = NoMatch, link_nodes = []\<rparr>"

definition purdue_row :: "string \<Rightarrow> int option \<Rightarrow> row" where
  \<comment> \<open>the canonical row of the end-to-end scenario, for an opponent name and rank\<close>
  "purdue_row name rank =
     \<lparr>row_date = ''2025-02-01'', row_time_local = None, row_home_away = ''N'',
      row_nu_rank = None, row_opponent = name, row_opp_rank = rank,
      row_title = name, row_arena = None, row_city = None,
      row_arena_key = ''unknown'', row_nu_logo = None, row_opp_logo = None,
      row_tv_logo = None, row_tv = [], row_status = ''final'',
      row_result = Some ''W 78-65'', row_result_css = Some ''W'',
      row_notes = None, row_links = []\<rparr>"


definition late_march :: datetime where
  "late_march = \<lparr>year = 2025, month = 3, day = 31, hour = 23, minute = 0, second = 0\<rparr>"


definition scrimmage_item :: raw_item where
  \<comment> \<open>the exhibition, listed with a few more words after the phrase, and dated\<close>
  "scrimmage_item =
     blank_item\<lparr>opponent_name := Some ''Opening Night Presented by SCHEELS (Red-White)'',
                 date := Some ''2025-10-20''\<rparr>"

definition evening_item :: raw_item where
  "evening_item =
     blank_item\<lparr>opponent_name := Some ''Iowa'', date := Some ''2025-01-10'', time_local := Some ''7:00 PM''\<rparr>"

definition untimed_item :: raw_item where
  "untimed_item = blank_item\<lparr>opponent_name := Some ''Ohio State'', date := Some ''2025-01-10''\<rparr>"




definition sponsor_only_item :: raw_item where
  \<comment> \<open>a game whose arena text is nothing but a sponsor note\<close>
  "sponsor_only_item =
     blank_item\<lparr>opponent_name := Some ''Iowa'', date := Some ''2025-01-10'',
                 arena := Some ''Presented by Acme''\<rparr>"

definition dashes_item :: raw_item where
  \<comment> \<open>a game whose arena text has no letter and no digit\<close>
  "dashes_item =
     blank_item\<lparr>opponent_name := Some ''Iowa'', date := Some ''2025-01-10'', arena := Some '' -- / -- ''\<rparr>"

section \<open>Auxiliary facts\<close>

lemma space_not_token: "is_space c \<Longrightarrow> \<not> is_token_char c"
  by (auto simp: is_space_def is_token_char_def is_ascii_letter_def)

lemma space_not_digit: "is_space c \<Longrightarrow> \<not> is_digit c"
  by (auto simp: is_space_def is_digit_def)

lemma digit_not_token: "is_digit c \<Longrightarrow> \<not> is_token_char c"
  by (auto simp: is_digit_def is_token_char_def is_ascii_letter_def less_eq_char_def)

lemma takeWhile_run: "list_all P xs \<Longrightarrow> (ys = [] \<or> \<not> P (hd ys)) \<Longrightarrow> takeWhile P (xs @ ys) = xs"
  by (induction xs) (auto simp: takeWhile_eq_Nil_iff neq_Nil_conv)

lemma dropWhile_run: "list_all P xs \<Longrightarrow> dropWhile P (xs @ ys) = dropWhile P ys"
  by (induction xs) auto

lemma dropWhile_stop: "ys = [] \<or> \<not> P (hd ys) \<Longrightarrow> dropWhile P ys = ys"
  by (cases ys) auto


lemma match_label_parts:
  assumes "label_parts a tok b ds c"
  shows "match_label (a @ tok @ b @ ds @ c) = Some (tok, ds)"
proof -
  from assms have a: "list_all is_space a" and tok: "tok \<noteq> []" "list_all is_token_char tok"
    and b: "b \<noteq> []" "list_all is_space b" and ds: "ds \<noteq> []" "length ds \<le> 2" "list_all is_digit ds"
    and c: "list_all is_space c"
    by (simp_all add: label_parts_def)
  have tok_hd: "\<not> is_space (hd tok)"
    using tok space_not_token by (cases tok) auto
  have b_hd: "\<not> is_token_char (hd b)"
    using b space_not_token by (cases b) auto
  have ds_hd: "\<not> is_space (hd ds)"
    using ds space_not_digit by (cases ds) auto
  have c_hd: "c = [] \<or> \<not> is_digit (hd c)"
    using c space_not_digit by (cases c) auto
  have s1: "dropWhile is_space (a @ tok @ b @ ds @ c) = tok @ b @ ds @ c"
    using a tok tok_hd by (simp add: dropWhile_run dropWhile_stop)
  have t: "takeWhile is_token_char (tok @ b @ ds @ c) = tok"
    using tok b b_hd by (intro takeWhile_run) auto
  have s2: "dropWhile is_token_char (tok @ b @ ds @ c) = b @ ds @ c"
    using tok b b_hd by (simp add: dropWhile_run dropWhile_stop)
  have s3: "dropWhile is_space (b @ ds @ c) = ds @ c"
    using b ds ds_hd by (simp add: dropWhile_run dropWhile_stop)
  have d: "takeWhile is_digit (ds @ c) = ds"
    using ds c_hd by (intro takeWhile_run) auto
  have s4: "dropWhile is_digit (ds @ c) = c"
    using ds c_hd by (simp add: dropWhile_run dropWhile_stop)
  have ne: "ds @ c \<noteq> b @ ds @ c"
    using b by simp
  show ?thesis
    using tok ds c ne by (simp add: match_label_def s1 t s2 s3 d s4)
qed

lemma match_label_shape:
  assumes "match_label label = Some (tok, ds)"
  shows "\<exists>a b c. label = a @ tok @ b @ ds @ c \<and> label_parts a tok b ds c"
proof -
  define a where "a = takeWhile is_space label"
  define s1 where "s1 = dropWhile is_space label"
  define s2 where "s2 = dropWhile is_token_char s1"
  define b where "b = takeWhile is_space s2"
  define s3 where "s3 = dropWhile is_space s2"
  define c where "c = dropWhile is_digit s3"
  from assms have tok: "tok = takeWhile is_token_char s1" and ds: "ds = takeWhile is_digit s3"
    and ok: "tok \<noteq> []" "s3 \<noteq> s2" "ds \<noteq> []" "length ds \<le> 2" "list_all is_space c"
    by (auto simp: match_label_def Let_def s1_def s2_def s3_def c_def split: if_splits)
  have "label = a @ s1" by (simp add: a_def s1_def)
  also have "s1 = tok @ s2" by (simp add: tok s2_def)
  also have "s2 = b @ s3" by (simp add: b_def s3_def)
  also have "s3 = ds @ c" by (simp add: ds c_def)
  finally have eq: "label = a @ tok @ b @ ds @ c" by simp
  have "b \<noteq> []"
    using ok(2) \<open>s2 = b @ s3\<close> by auto
  moreover have "list_all is_space a" "list_all is_space b"
    by (simp_all add: a_def b_def list_all_iff) (meson set_takeWhileD)+
  moreover have "list_all is_token_char tok" "list_all is_digit ds"
    by (simp_all add: tok ds list_all_iff) (meson set_takeWhileD)+
  ultimately have "label_parts a tok b ds c"
    using ok by (simp add: label_parts_def)
  with eq show ?thesis by blast
qed


lemma month_in_table: "map_of MONTH_IDX k = Some mon \<Longrightarrow> 1 \<le> mon \<and> mon \<le> 12"
  by (simp add: MONTH_IDX_def split: if_splits)

lemma parse_date_parts:
  assumes "label_parts a tok b ds c" and "month_of_token tok = Some mon"
  shows "parse_date_from_text (Some (a @ tok @ b @ ds @ c)) y =
           Some (iso_date (if mon < 8 then y + 1 else y) mon (int_of_digits ds))"
proof -
  have "tok \<noteq> []" using assms(1) by (simp add: label_parts_def)
  then have "truthy (Some (a @ tok @ b @ ds @ c))" by (simp add: truthy_def)
  then show ?thesis
    using match_label_parts [OF assms(1)] assms(2)
    by (simp add: parse_date_from_text_def month_of_token_def Let_def)
qed

lemma parse_date_shape:
  assumes "parse_date_from_text (Some label) y = Some s"
  shows "\<exists>a tok b ds c mon. label = a @ tok @ b @ ds @ c \<and> label_parts a tok b ds c \<and>
           month_of_token tok = Some mon \<and>
           s = iso_date (if mon < 8 then y + 1 else y) mon (int_of_digits ds)"
proof -
  from assms obtain tok ds mon where m: "match_label label = Some (tok, ds)"
    and mon: "month_of_token tok = Some mon"
    and s: "s = iso_date (if mon < 8 then y + 1 else y) mon (int_of_digits ds)"
    by (auto simp: parse_date_from_text_def month_of_token_def Let_def
        split: if_splits option.splits)
  from match_label_shape [OF m] obtain a b c
    where "label = a @ tok @ b @ ds @ c" "label_parts a tok b ds c" by blast
  with mon s show ?thesis by blast
qed

lemma undated_dropped:
  assumes "\<not> truthy (date it)" and "parse_date_from_text (date_text it) y = None"
  shows "normalize_item y it = None"
  using assms by (simp add: normalize_item_def resolve_date_def Let_def truthy_def)

lemma contains_self: "contains s s"
  by (cases s) (simp_all add: startswith_def)

lemma set_collect_rows:
  "set (collect_rows y items) = {r. \<exists>it. it \<in> set items \<and> normalize_item y it = Some r}"
  by (induction items) (auto split: option.splits)

lemma set_normalize_mbb:
  "set (normalize_mbb rt items scraped_at) =
     {r. \<exists>it. it \<in> set items \<and>
        normalize_item (detect_season_start_year (scraped_central rt scraped_at)) it = Some r}"
  by (simp add: normalize_mbb_def set_collect_rows)

lemma normalize_item_None_iff:
  "normalize_item y it = None \<longleftrightarrow>
     py_strip (str_or (opponent_name it) []) = [] \<or>
     contains (py_lower (py_strip (str_or (opponent_name it) []))) ''opening night presented by scheels'' \<or>
     startswith (py_lower (py_strip (str_or (opponent_name it) []))) ''big ten '' \<or>
     \<not> truthy (resolve_date it y)"
  by (simp add: normalize_item_def Let_def)

lemma normalize_item_opponent:
  assumes "normalize_item y it = Some r"
  shows "row_opponent r = py_strip (str_or (opponent_name it) [])"
proof -
  from assms have "normalize_item y it \<noteq> None" by simp
  then have ne: "py_strip (str_or (opponent_name it) []) \<noteq> []"
    and a: "\<not> contains (py_lower (py_strip (str_or (opponent_name it) []))) ''opening night presented by scheels''"
    and b: "\<not> startswith (py_lower (py_strip (str_or (opponent_name it) []))) ''big ten ''"
    and c: "truthy (resolve_date it y)"
    by (simp_all add: normalize_item_None_iff)
  with assms show ?thesis
    by (auto simp: normalize_item_def Let_def)
qed

lemma normalize_mbb_sorted: "sorted (map sort_key_of (normalize_mbb rt items scraped_at))"
  by (simp add: normalize_mbb_def)

lemma normalize_mbb_adjacent:
  assumes "Suc i < length (normalize_mbb rt items scraped_at)"
  shows "sort_key_of (normalize_mbb rt items scraped_at ! i) \<le>
         sort_key_of (normalize_mbb rt items scraped_at ! Suc i)"
proof -
  let ?rows = "normalize_mbb rt items scraped_at"
  have "map sort_key_of ?rows ! i \<le> map sort_key_of ?rows ! Suc i"
    using normalize_mbb_sorted assms by (intro sorted_nth_mono) simp_all
  with assms show ?thesis by simp
qed























lemma lower_char_slug: "\<forall>c. is_slug_char (lower_char c) \<longleftrightarrow> is_ascii_letter c \<or> is_digit c"
  by code_simp

lemma lower_without_alnum:
  "list_all (\<lambda>c. \<not> is_slug_char c) (py_lower a) \<longleftrightarrow>
   list_all (\<lambda>c. \<not> is_ascii_letter c \<and> \<not> is_digit c) a"
  using lower_char_slug by (simp add: py_lower_def list_all_iff)

lemma lower_char_p: "\<forall>c. lower_char c = CHR ''p'' \<longrightarrow> is_ascii_letter c"
  by code_simp

lemma set_py_strip: "set (py_strip s) \<subseteq> set s"
proof -
  have "set (py_strip s) \<subseteq> set (dropWhile is_space s)"
    unfolding py_strip_def set_rev using set_dropWhileD by fastforce
  also have "\<dots> \<subseteq> set s"
    using set_dropWhileD by fastforce
  finally show ?thesis .
qed

lemma py_strip_empty_iff: "py_strip s = [] \<longleftrightarrow> list_all is_space s"
proof -
  let ?t = "dropWhile is_space s"
  have "py_strip s = [] \<longleftrightarrow> (\<forall>x \<in> set ?t. is_space x)"
    by (simp add: py_strip_def)
  also have "\<dots> \<longleftrightarrow> ?t = []"
  proof
    assume a: "\<forall>x \<in> set ?t. is_space x"
    show "?t = []"
    proof (rule ccontr)
      assume ne: "?t \<noteq> []"
      then have "\<not> is_space (hd ?t)" by (rule hd_dropWhile)
      with a ne show False by simp
    qed
  next
    assume "?t = []"
    then show "\<forall>x \<in> set ?t. is_space x"
      by (simp del: dropWhile_eq_Nil_conv)
  qed
  also have "\<dots> \<longleftrightarrow> list_all is_space s"
    by (simp add: list_all_iff)
  finally show ?thesis .
qed

lemma no_slug_chars_slug:
  assumes "list_all (\<lambda>c. \<not> is_slug_char c) s"
  shows "strip_chars (CHR ''-'') (sub_dashes (sub_non_alnum s)) = []"
proof (cases s)
  case Nil
  then show ?thesis by (simp add: strip_chars_def)
next
  case (Cons c cs)
  with assms have d: "dropWhile (\<lambda>x. \<not> is_slug_char x) cs = []"
    by (simp add: list_all_iff)
  from Cons assms have "sub_non_alnum s = [CHR ''-'']"
    by (simp del: dropWhile_eq_Nil_conv add: d)
  then show ?thesis
    by (simp add: strip_chars_def)
qed

lemma no_letters_not_presented:
  assumes "list_all (\<lambda>c. \<not> is_ascii_letter c) s"
  shows "\<not> presented_at s"
proof
  assume p: "presented_at s"
  define t where "t = dropWhile is_space s"
  from p have l: "py_lower (take 12 t) = ''presented by''"
    by (simp add: presented_at_def Let_def t_def)
  then obtain c cs where t: "t = c # cs"
    by (cases t) (auto simp: py_lower_def)
  with l have "lower_char c = CHR ''p''"
    by (simp add: py_lower_def)
  then have "is_ascii_letter c"
    using lower_char_p by blast
  moreover have "c \<in> set s"
    using t set_dropWhileD [of c is_space s] by (simp add: t_def)
  ultimately show False
    using assms by (auto simp: list_all_iff)
qed

lemma no_letters_sub_presented:
  assumes "list_all (\<lambda>c. \<not> is_ascii_letter c) s"
  shows "sub_presented s = s"
  using assms
proof (induction s)
  case Nil
  then show ?case by simp
next
  case (Cons c cs)
  then have "\<not> presented_at (c # cs)"
    by (intro no_letters_not_presented)
  with Cons show ?case by simp
qed

lemma plain_arena_key:
  assumes "py_strip a \<noteq> []" and "list_all (\<lambda>c. \<not> is_ascii_letter c \<and> \<not> is_digit c) a"
  shows "clean_arena (Some a) = Some (py_strip a)"
    and "slug (Some (str_or (clean_arena (Some a)) ''unknown'')) = []"
proof -
  from assms(1) have a: "a \<noteq> []"
    by (auto simp: py_strip_def)
  from assms(2) have sa: "list_all (\<lambda>c. \<not> is_ascii_letter c \<and> \<not> is_digit c) (py_strip a)"
    using set_py_strip [of a] by (auto simp: list_all_iff)
  then have "list_all (\<lambda>c. \<not> is_ascii_letter c) (py_strip a)"
    by (simp add: list_all_iff)
  then have sub: "sub_presented (py_strip a) = py_strip a"
    by (rule no_letters_sub_presented)
  have idem: "py_strip (py_strip a) = py_strip a"
  proof -
    let ?t = "dropWhile is_space a"
    let ?u = "dropWhile is_space (rev ?t)"
    have u: "?u \<noteq> []"
      using assms(1) by (simp add: py_strip_def)
    then have "\<not> is_space (hd ?u)" by (rule hd_dropWhile)
    then have "\<not> is_space (last (rev ?u))"
      using u by (simp add: last_rev)
    moreover have "rev ?u \<noteq> []" using u by simp
    moreover have "\<not> is_space (hd (rev ?u))"
    proof -
      have "?t \<noteq> []"
      proof
        assume "?t = []"
        then have "?u = []" by (simp del: dropWhile_eq_Nil_conv)
        with u show False by simp
      qed
      then have "\<not> is_space (hd ?t)" by (rule hd_dropWhile)
      moreover have "\<exists>v. rev ?t = v @ ?u"
        by (metis takeWhile_dropWhile_id)
      then obtain v where "rev ?t = v @ ?u" by blast
      then have "?t = rev ?u @ rev v"
        by (metis rev_append rev_rev_ident)
      then have "hd ?t = hd (rev ?u)"
        using \<open>rev ?u \<noteq> []\<close> by (metis hd_append2)
      ultimately show ?thesis by simp
    qed
    ultimately have "dropWhile is_space (rev ?u) = rev ?u"
      "dropWhile is_space (rev (rev ?u)) = rev (rev ?u)"
      using u by (simp_all add: dropWhile_stop)
    then show ?thesis
      by (simp add: py_strip_def)
  qed
  show c: "clean_arena (Some a) = Some (py_strip a)"
    using assms(1) a sub idem by (simp add: clean_arena_def strip_or_none_def str_or_def Let_def)
  have "list_all (\<lambda>c. \<not> is_slug_char c) (py_lower (py_strip a))"
    using sa lower_char_slug by (auto simp: list_all_iff py_lower_def)
  then have "list_all (\<lambda>c. \<not> is_slug_char c) (py_strip (py_lower (py_strip a)))"
    using set_py_strip [of "py_lower (py_strip a)"] by (auto simp: list_all_iff)
  then have "strip_chars (CHR ''-'') (sub_dashes (sub_non_alnum (py_strip (py_lower (py_strip a))))) = []"
    by (rule no_slug_chars_slug)
  with assms(1) show "slug (Some (str_or (clean_arena (Some a)) ''unknown'')) = []"
    by (simp add: c slug_def str_or_def)
qed

lemma normalize_item_arena:
  assumes "normalize_item y it = Some r"
  shows "row_arena r = clean_arena (arena it)"
    and "row_arena_key r = slug (Some (str_or (clean_arena (arena it)) ''unknown''))"
proof -
  from assms have "normalize_item y it \<noteq> None" by simp
  then have ne: "py_strip (str_or (opponent_name it) []) \<noteq> []"
    and a: "\<not> contains (py_lower (py_strip (str_or (opponent_name it) []))) ''opening night presented by scheels''"
    and b: "\<not> startswith (py_lower (py_strip (str_or (opponent_name it) []))) ''big ten ''"
    and c: "truthy (resolve_date it y)"
    by (simp_all add: normalize_item_None_iff)
  with assms show "row_arena r = clean_arena (arena it)"
    and "row_arena_key r = slug (Some (str_or (clean_arena (arena it)) ''unknown''))"
    by (auto simp: normalize_item_def Let_def)
qed

section \<open>The claims\<close>

text \<open>
  Claim C1, as stated, fails: the Normalizer never touches a rank prefix, so for the raw
  item with \<open>opponent_name = "#4 Purdue"\<close> and no \<open>opp_rank\<close> the one row it emits has
  opponent \<open>#4 Purdue\<close> and no opponent rank (its other fields are those of the claim).
\<close>

theorem end_to_end_literal_item:
  "normalize_mbb (py_runtime Map.empty \<lparr>year = 2025, month = 2, day = 1, hour = 18, minute = 0, second = 0\<rparr>)
     [blank_item\<lparr>opponent_name := Some ''#4 Purdue'', date_text := Some ''Feb 1'',
                  result := Some \<lparr>outcome = ''W'', sets = ''78-65''\<rparr>\<rparr>]
     (Some ''2025-02-02T00:00:00Z'') = [purdue_row ''#4 Purdue'' None]"
  by code_simp

text \<open>
  Claim C1, amended. The prefix is split off by the Extractor (\<open>name_and_rank\<close>, lines
  123 to 127 of \<open>parse_event\<close>). For the raw item the Extractor writes, with
  \<open>opponent_name = "Purdue"\<close> and \<open>opp_rank = 4\<close>, and the capture time
  2025-02-02T00:00:00Z, the Normalizer emits exactly the row of the scenario: date
  2025-02-01, opponent Purdue, rank 4, status final, result \<open>W 78-65\<close>, result class W. The
  same row comes out of the two stages run one after the other on the rendered row.
\<close>

theorem end_to_end_scenario:
  "name_and_rank ''#4 Purdue'' = (Some 4, ''Purdue'') \<and>
   normalize_mbb (py_runtime lib now)
     [blank_item\<lparr>opponent_name := Some ''Purdue'', opp_rank := Some 4, date_text := Some ''Feb 1'',
                  result := Some \<lparr>outcome = ''W'', sets = ''78-65''\<rparr>\<rparr>]
     (Some ''2025-02-02T00:00:00Z'') = [purdue_row ''Purdue'' (Some 4)] \<and>
   map_option (\<lambda>it. normalize_mbb (py_runtime lib now) [it] (Some ''2025-02-02T00:00:00Z''))
     (parse_event purdue_event) = Some [purdue_row ''Purdue'' (Some 4)]"
  by code_simp









text \<open>
  Claim C5. A label of the form \<open><month-token> <day>\<close> whose token begins (periods apart,
  case aside) with a key of the month table parses to the ISO date of that month and day,
  in the season's start year for August to December and in the following year for
  January to July; a label that parses has that form; a record with neither an ISO date
  nor a label that parses is dropped. With season start year 2024, \<open>Nov 5\<close> gives
  2024-11-05 and \<open>Jan 10\<close> gives 2025-01-10.
\<close>

theorem parse_date_from_text_spec:
  "(label_parts a tok b ds c \<and> month_of_token tok = Some mon \<longrightarrow>
      1 \<le> mon \<and> mon \<le> 12 \<and>
      parse_date_from_text (Some (a @ tok @ b @ ds @ c)) y =
        Some (iso_date (if mon < 8 then y + 1 else y) mon (int_of_digits ds))) \<and>
   (parse_date_from_text (Some label) y = Some s \<longrightarrow>
      (\<exists>a tok b ds c mon. label = a @ tok @ b @ ds @ c \<and> label_parts a tok b ds c \<and>
         month_of_token tok = Some mon \<and>
         s = iso_date (if mon < 8 then y + 1 else y) mon (int_of_digits ds))) \<and>
   parse_date_from_text None y = None \<and>
   (\<not> truthy (date it) \<and> parse_date_from_text (date_text it) y = None \<longrightarrow>
      normalize_item y it = None) \<and>
   parse_date_from_text (Some ''Nov 5'') 2024 = Some ''2024-11-05'' \<and>
   parse_date_from_text (Some ''Jan 10'') 2024 = Some ''2025-01-10''"
proof (intro conjI impI)
  assume h: "label_parts a tok b ds c \<and> month_of_token tok = Some mon"
  then show "1 \<le> mon" "mon \<le> 12"
    using month_in_table by (auto simp: month_of_token_def)
  from h show "parse_date_from_text (Some (a @ tok @ b @ ds @ c)) y =
        Some (iso_date (if mon < 8 then y + 1 else y) mon (int_of_digits ds))"
    using parse_date_parts by blast
next
  assume "parse_date_from_text (Some label) y = Some s"
  then show "\<exists>a tok b ds c mon. label = a @ tok @ b @ ds @ c \<and> label_parts a tok b ds c \<and>
         month_of_token tok = Some mon \<and>
         s = iso_date (if mon < 8 then y + 1 else y) mon (int_of_digits ds)"
    by (rule parse_date_shape)
next
  show "parse_date_from_text None y = None"
    by (simp add: parse_date_from_text_def truthy_def)
next
  assume "\<not> truthy (date it) \<and> parse_date_from_text (date_text it) y = None"
  then show "normalize_item y it = None"
    using undated_dropped by blast
next
  show "parse_date_from_text (Some ''Nov 5'') 2024 = Some ''2024-11-05''"
    by code_simp
next
  show "parse_date_from_text (Some ''Jan 10'') 2024 = Some ''2025-01-10''"
    by code_simp
qed

theorem parse_date_from_text_witness:
  "parse_date_from_text (Some ''  Sept. 5 '') 2024 = Some ''2024-09-05'' \<and>
   (\<exists>a tok b ds c mon. ''Mar 1'' = a @ tok @ b @ ds @ c \<and> label_parts a tok b ds c \<and>
      month_of_token tok = Some mon \<and> ''2025-03-01'' = iso_date (if mon < 8 then 2024 + 1 else 2024) mon (int_of_digits ds)) \<and>
   normalize_item 2024 (blank_item\<lparr>opponent_name := Some ''Purdue'', date_text := Some ''5 Sept''\<rparr>) = None"
proof -
  have p: "label_parts ''  '' ''Sept.'' '' '' ''5'' '' ''"
    by code_simp
  have m: "month_of_token ''Sept.'' = Some 9"
    by code_simp
  have i: "iso_date (if (9::int) < 8 then 2024 + 1 else 2024) 9 (int_of_digits ''5'') = ''2024-09-05''"
    by code_simp
  have q: "parse_date_from_text (Some ''Mar 1'') 2024 = Some ''2025-03-01''"
    by code_simp
  have d: "\<not> truthy (date (blank_item\<lparr>opponent_name := Some ''Purdue'', date_text := Some ''5 Sept''\<rparr>))"
    by code_simp
  have n: "parse_date_from_text (date_text (blank_item\<lparr>opponent_name := Some ''Purdue'', date_text := Some ''5 Sept''\<rparr>)) 2024 = None"
    by code_simp
  show ?thesis
    using parse_date_from_text_spec [of "''  ''" "''Sept.''" "'' ''" "''5''" "'' ''" 9 2024 "''Mar 1''" "''2025-03-01''"
        "blank_item\<lparr>opponent_name := Some ''Purdue'', date_text := Some ''5 Sept''\<rparr>"] p m i q d n
    by simp
qed

text \<open>
  Claim C6, as stated, fails: the exhibition is recognised by the phrase occurring
  anywhere in the lower-cased name, not by equality with it. A dated record whose name
  goes on after the phrase is dropped, though none of the four conditions of the claim
  holds for it.
\<close>

theorem scrimmage_dropped_without_exact_match:
  "normalize_mbb (py_runtime Map.empty late_march) [scrimmage_item] None = [] \<and>
   py_strip (str_or (opponent_name scrimmage_item) []) \<noteq> [] \<and>
   py_lower (py_strip (str_or (opponent_name scrimmage_item) [])) \<noteq> ''opening night presented by scheels'' \<and>
   \<not> startswith (py_lower (py_strip (str_or (opponent_name scrimmage_item) []))) ''big ten '' \<and>
   resolve_date scrimmage_item 2024 = Some ''2025-10-20''"
  by code_simp

text \<open>
  Claim C6, amended. The Normalizer drops a record if and only if its opponent name,
  stripped, is empty, or that name in lower case contains the exhibition phrase, or
  begins with \<open>big ten\<close> and a blank, or its date cannot be resolved; the rows are what
  the other records give. Consequently no row's opponent, in lower case, equals or
  contains the exhibition phrase or begins with that prefix.
\<close>

theorem normalize_filter_spec:
  "(normalize_item y it = None \<longleftrightarrow>
      py_strip (str_or (opponent_name it) []) = [] \<or>
      contains (py_lower (py_strip (str_or (opponent_name it) []))) ''opening night presented by scheels'' \<or>
      startswith (py_lower (py_strip (str_or (opponent_name it) []))) ''big ten '' \<or>
      \<not> truthy (resolve_date it y)) \<and>
   (r \<in> set (normalize_mbb rt items scraped_at) \<longleftrightarrow>
      (\<exists>it. it \<in> set items \<and>
         normalize_item (detect_season_start_year (scraped_central rt scraped_at)) it = Some r)) \<and>
   (\<forall>r \<in> set (normalize_mbb rt items scraped_at).
      py_lower (row_opponent r) \<noteq> ''opening night presented by scheels'' \<and>
      \<not> contains (py_lower (row_opponent r)) ''opening night presented by scheels'' \<and>
      \<not> startswith (py_lower (row_opponent r)) ''big ten '')"
proof (intro conjI ballI)
  show "normalize_item y it = None \<longleftrightarrow>
      py_strip (str_or (opponent_name it) []) = [] \<or>
      contains (py_lower (py_strip (str_or (opponent_name it) []))) ''opening night presented by scheels'' \<or>
      startswith (py_lower (py_strip (str_or (opponent_name it) []))) ''big ten '' \<or>
      \<not> truthy (resolve_date it y)"
    by (rule normalize_item_None_iff)
next
  show "r \<in> set (normalize_mbb rt items scraped_at) \<longleftrightarrow>
      (\<exists>it. it \<in> set items \<and>
         normalize_item (detect_season_start_year (scraped_central rt scraped_at)) it = Some r)"
    by (simp add: set_normalize_mbb)
next
  fix r assume "r \<in> set (normalize_mbb rt items scraped_at)"
  then obtain it where it: "normalize_item (detect_season_start_year (scraped_central rt scraped_at)) it = Some r"
    by (auto simp: set_normalize_mbb)
  then have "normalize_item (detect_season_start_year (scraped_central rt scraped_at)) it \<noteq> None"
    by simp
  then have a: "\<not> contains (py_lower (py_strip (str_or (opponent_name it) []))) ''opening night presented by scheels''"
    and b: "\<not> startswith (py_lower (py_strip (str_or (opponent_name it) []))) ''big ten ''"
    by (simp_all add: normalize_item_None_iff)
  have opp: "row_opponent r = py_strip (str_or (opponent_name it) [])"
    using it by (rule normalize_item_opponent)
  show "\<not> contains (py_lower (row_opponent r)) ''opening night presented by scheels''"
    using a opp by simp
  then show "py_lower (row_opponent r) \<noteq> ''opening night presented by scheels''"
    using contains_self by metis
  show "\<not> startswith (py_lower (row_opponent r)) ''big ten ''"
    using b opp by simp
qed

theorem normalize_filter_witness:
  "py_lower (row_opponent (hd (normalize_mbb (py_runtime Map.empty late_march) [scrimmage_item, evening_item] None))) \<noteq>
     ''opening night presented by scheels'' \<and>
   \<not> contains (py_lower (row_opponent (hd (normalize_mbb (py_runtime Map.empty late_march) [scrimmage_item, evening_item] None))))
     ''opening night presented by scheels'' \<and>
   \<not> startswith (py_lower (row_opponent (hd (normalize_mbb (py_runtime Map.empty late_march) [scrimmage_item, evening_item] None))))
     ''big ten ''"
proof -
  have "normalize_mbb (py_runtime Map.empty late_march) [scrimmage_item, evening_item] None \<noteq> []"
    by code_simp
  then have "hd (normalize_mbb (py_runtime Map.empty late_march) [scrimmage_item, evening_item] None)
      \<in> set (normalize_mbb (py_runtime Map.empty late_march) [scrimmage_item, evening_item] None)"
    by (rule hd_in_set)
  with normalize_filter_spec [of _ _ _ "py_runtime Map.empty late_march" "[scrimmage_item, evening_item]" None]
  show ?thesis by blast
qed

text \<open>
  Claim C7: the rows are in the order of their keys, but an absent time does not sort
  after every present one. The key of an absent time is the string \<open>23:59\<close>, and a time as
  the page prints it, such as \<open>7:00 PM\<close>, is greater than that string; so the game with
  no time comes out before the evening game of the same day.
\<close>

theorem untimed_sorts_before_evening:
  "map row_opponent (normalize_mbb (py_runtime Map.empty late_march) [evening_item, untimed_item] None) =
     [''Ohio State'', ''Iowa''] \<and>
   map sort_key_of (normalize_mbb (py_runtime Map.empty late_march) [evening_item, untimed_item] None) =
     [(''2025-01-10'', ''23:59''), (''2025-01-10'', ''7:00 PM'')]"
  by code_simp






text \<open>
  Claim C10, as stated, fails on its second half: the key \<open>unknown\<close> also comes out for
  an arena that is present and not blank, when the text is nothing but a sponsor note,
  which the Normalizer cuts before it takes the slug.
\<close>

theorem sponsor_only_arena_is_unknown:
  "map row_arena_key (normalize_mbb (py_runtime Map.empty late_march) [sponsor_only_item] None) =
     [''unknown''] \<and>
   map row_arena (normalize_mbb (py_runtime Map.empty late_march) [sponsor_only_item] None) =
     [Some []] \<and>
   arena sponsor_only_item = Some ''Presented by Acme'' \<and>
   py_strip ''Presented by Acme'' = ''Presented by Acme''"
  by code_simp

text \<open>
  Claim C10, amended. For every raw record that is emitted and whose arena is present,
  not empty after stripping, and in lower case without a letter \<open>a\<close> to \<open>z\<close> or a digit
  (for text below U+0100 that is: without an ASCII letter or digit), the row's arena is
  the stripped text and its \<open>arena_key\<close> is the empty string, not \<open>unknown\<close>. The key
  \<open>unknown\<close> is produced exactly when the arena is absent or blank, or is emptied by the
  removal of a \<open>presented by\<close> suffix, or has \<open>unknown\<close> as its own slug (as
  \<open>Unknown!\<close> has).
\<close>

theorem arena_key_spec:
  "(normalize_item y it = Some r \<and> arena it = Some a \<and> py_strip a \<noteq> [] \<and>
    list_all (\<lambda>c. \<not> is_slug_char c) (py_lower a) \<longrightarrow>
      row_arena_key r = [] \<and> row_arena r = Some (py_strip a)) \<and>
   (list_all (\<lambda>c. \<not> is_slug_char c) (py_lower a) \<longleftrightarrow>
      list_all (\<lambda>c. \<not> is_ascii_letter c \<and> \<not> is_digit c) a) \<and>
   (normalize_item y it = Some r \<longrightarrow>
      (row_arena_key r = ''unknown'' \<longleftrightarrow>
         clean_arena (arena it) = None \<or> clean_arena (arena it) = Some [] \<or>
         slug (clean_arena (arena it)) = ''unknown'')) \<and>
   (clean_arena x = None \<longleftrightarrow> x = None \<or> list_all is_space (the x)) \<and>
   clean_arena (Some ''Presented by Acme'') = Some [] \<and>
   slug (Some ''Unknown!'') = ''unknown''"
proof (intro conjI impI)
  assume h: "normalize_item y it = Some r \<and> arena it = Some a \<and> py_strip a \<noteq> [] \<and>
    list_all (\<lambda>c. \<not> is_slug_char c) (py_lower a)"
  then have n: "normalize_item y it = Some r" and a: "arena it = Some a"
    and p: "py_strip a \<noteq> []" "list_all (\<lambda>c. \<not> is_ascii_letter c \<and> \<not> is_digit c) a"
    by (simp_all add: lower_without_alnum)
  show "row_arena_key r = []"
    using normalize_item_arena(2) [OF n] plain_arena_key(2) [OF p] by (simp add: a)
  show "row_arena r = Some (py_strip a)"
    using normalize_item_arena(1) [OF n] plain_arena_key(1) [OF p] by (simp add: a)
next
  show "list_all (\<lambda>c. \<not> is_slug_char c) (py_lower a) \<longleftrightarrow>
      list_all (\<lambda>c. \<not> is_ascii_letter c \<and> \<not> is_digit c) a"
    by (rule lower_without_alnum)
next
  assume n: "normalize_item y it = Some r"
  have u: "slug (Some ''unknown'') = ''unknown''"
    by code_simp
  show "row_arena_key r = ''unknown'' \<longleftrightarrow>
         clean_arena (arena it) = None \<or> clean_arena (arena it) = Some [] \<or>
         slug (clean_arena (arena it)) = ''unknown''"
  proof (cases "clean_arena (arena it)")
    case None
    with u show ?thesis
      by (simp add: normalize_item_arena(2) [OF n] str_or_def)
  next
    case (Some c)
    with u show ?thesis
      by (cases c) (simp_all add: normalize_item_arena(2) [OF n] str_or_def)
  qed
next
  show "clean_arena x = None \<longleftrightarrow> x = None \<or> list_all is_space (the x)"
  proof (cases x)
    case None
    then show ?thesis
      by (simp add: clean_arena_def strip_or_none_def str_or_def py_strip_def)
  next
    case (Some s)
    have "py_strip [] = []" by (simp add: py_strip_def)
    with Some show ?thesis
      using py_strip_empty_iff [of s]
      by (auto simp: clean_arena_def strip_or_none_def str_or_def Let_def split: option.splits if_splits)
  qed
next
  show "clean_arena (Some ''Presented by Acme'') = Some []" by code_simp
  show "slug (Some ''Unknown!'') = ''unknown''" by code_simp
qed

theorem arena_key_witness:
  "row_arena_key (the (normalize_item 2024 dashes_item)) = [] \<and>
   row_arena (the (normalize_item 2024 dashes_item)) = Some (py_strip '' -- / -- '') \<and>
   (row_arena_key (the (normalize_item 2024 dashes_item)) = ''unknown'') =
     (clean_arena (arena dashes_item) = None \<or> clean_arena (arena dashes_item) = Some [] \<or>
      slug (clean_arena (arena dashes_item)) = ''unknown'')"
proof -
  have "normalize_item 2024 dashes_item \<noteq> None"
    by code_simp
  then have n: "normalize_item 2024 dashes_item = Some (the (normalize_item 2024 dashes_item))"
    by simp
  have a: "arena dashes_item = Some '' -- / -- ''"
    by code_simp
  have p: "py_strip '' -- / -- '' \<noteq> []"
    by code_simp
  have l: "list_all (\<lambda>c. \<not> is_slug_char c) (py_lower '' -- / -- '')"
    by code_simp
  show ?thesis
    using arena_key_spec [of 2024 dashes_item "the (normalize_item 2024 dashes_item)" "'' -- / -- ''"] n a p l
    by blast
qed

end
